theory Spec2Isabelle
  imports Main "HOL-Library.Multiset"
begin

section \<open>JavaScript values\<close>

text \<open>
  Request parameters and bodies are arbitrary JavaScript values. Objects and arrays have
  an identity: they live in a heap and are referred to by address, so that two
  references to one object (and a cycle) can be told from two equal objects.
  Numbers are the integers; objects are plain data (no \<open>toJSON\<close> method).
\<close>

datatype jsval =
    JUndefined
  | JNull
  | JBool bool
  | JNum int
  | JStr string
  | JBigInt int
  | JFunction
  | JRef nat

datatype jsobj = JObject "(string \<times> jsval) list" | JArray "jsval list"

type_synonym heap = "jsobj list"

text \<open>ToBoolean, the test of \<open>x ? a : b\<close>, \<open>x || d\<close> and \<open>if (x)\<close>.\<close>

fun truthy :: "jsval \<Rightarrow> bool" where
  "truthy JUndefined = False"
| "truthy JNull = False"
| "truthy (JBool b) = b"
| "truthy (JNum n) = (n \<noteq> 0)"
| "truthy (JStr s) = (s \<noteq> [])"
| "truthy (JBigInt n) = (n \<noteq> 0)"
| "truthy JFunction = True"
| "truthy (JRef a) = True"

text \<open>
  \<open>String.prototype.toLowerCase\<close> on ASCII text: the letters A to Z (codes 65 to 90)
  get bit 5 set, which adds 32.
\<close>

fun lowerChar :: "char \<Rightarrow> char" where
  "lowerChar (Char b0 b1 b2 b3 b4 b5 b6 b7) =
     (let n = (of_char (Char b0 b1 b2 b3 b4 b5 b6 b7) :: nat)
      in if 65 \<le> n \<and> n \<le> 90 then Char b0 b1 b2 b3 b4 True b6 b7
         else Char b0 b1 b2 b3 b4 b5 b6 b7)"

definition toLowerCase :: "string \<Rightarrow> string" where
  "toLowerCase s = map lowerChar s"

text \<open>\<open>Array.prototype.includes\<close> on an array of strings or numbers.\<close>

definition array_includes :: "'a list \<Rightarrow> 'a \<Rightarrow> bool" where
  "array_includes xs x = (x \<in> set xs)"

section \<open>Requests, responses and errors\<close>

text \<open>
  What the response interceptor stores in the cache: a copy of the response whose
  \<open>config\<close> keeps the url, the method and the headers only.
\<close>

record SafeConfig =
  safe_url :: "string option"
  safe_method :: "string option"
  safe_headers :: "(string \<times> string) list"

record SafeResponse =
  safe_data :: jsval
  safe_status :: int
  safe_statusText :: string
  safe_resp_headers :: "(string \<times> string) list"
  safe_config :: SafeConfig

text \<open>
  The field \<open>method'\<close> is \<open>config.method\<close>.
  \<open>adapter\<close> is set by the cache interceptor on a hit: a function that resolves to the
  cached response instead of calling the network.
\<close>

record AxiosRequestConfig =
  method' :: "string option"
  url :: "string option"
  params :: jsval
  data :: jsval
  headers :: "(string \<times> string) list"
  adapter :: "SafeResponse option"

record AxiosResponse =
  resp_data :: jsval
  status :: int
  statusText :: string
  resp_headers :: "(string \<times> string) list"
  resp_config :: AxiosRequestConfig

text \<open>
  An \<open>Error\<close> instance. \<open>err_response\<close> is \<open>error.response\<close> (absent when no response
  was received) and \<open>err_config\<close> is \<open>error.config\<close>. \<open>retryableCode\<close> is what
  axios-retry's \<open>isNetworkError\<close> reads from \<open>error.code\<close> once it has found no response:
  the code is set, is neither \<open>ECONNABORTED\<close> nor \<open>ERR_CANCELED\<close>, and is retry-allowed.
\<close>

record AxiosError =
  message :: string
  err_response :: "AxiosResponse option"
  err_config :: "AxiosRequestConfig option"
  retryableCode :: bool

definition isNetworkError :: "AxiosError \<Rightarrow> bool" where
  "isNetworkError e = (err_response e = None \<and> retryableCode e)"

definition TypeError :: "string \<Rightarrow> AxiosError" where
  "TypeError m =
     \<lparr>message = m, err_response = None, err_config = None, retryableCode = False\<rparr>"

text \<open>An option that is left out, given as a boolean, or given as an options object.\<close>

datatype 'a setting = Unset | Flag bool | Opts 'a

section \<open>Retry\<close>

record RetryOptions =
  retries :: "int option"
  retryDelay :: "int option"
  statusCodesToRetry :: "int list option"
  methodsToRetry :: "string list option"
  retryCondition :: "(AxiosError \<Rightarrow> bool) option"

definition noRetryOptions :: RetryOptions where
  "noRetryOptions =
     \<lparr>retries = None, retryDelay = None, statusCodesToRetry = None,
      methodsToRetry = None, retryCondition = None\<rparr>"

text \<open>\<open>options.retries || 3\<close>: a missing value and the falsy number 0 both give 3.\<close>

definition retriesOr3 :: "int option \<Rightarrow> int" where
  "retriesOr3 r = (case r of None \<Rightarrow> 3 | Some n \<Rightarrow> if n = 0 then 3 else n)"

definition defaultStatusCodesToRetry :: "int list" where
  "defaultStatusCodesToRetry = [408, 429, 500, 502, 503, 504]"

definition defaultMethodsToRetry :: "string list" where
  "defaultMethodsToRetry = [''get'', ''head'', ''options'', ''delete'', ''put'']"

text \<open>
  The \<open>retryCondition\<close> callback that \<open>setupRetry\<close> hands to axios-retry.
  \<open>method.toLowerCase()\<close> raises a TypeError when \<open>error.config\<close> is there and has no
  method (\<open>undefined !== null\<close>); the conjunction before it short-circuits, so that only
  happens once the status is in the list.
\<close>

definition retryConditionOf :: "RetryOptions \<Rightarrow> AxiosError \<Rightarrow> AxiosError + bool" where
  "retryConditionOf options error =
     (case retryCondition options of
        Some p \<Rightarrow> Inr (p error)
      | None \<Rightarrow>
          (let statusCodes =
                 (case statusCodesToRetry options of
                    None \<Rightarrow> defaultStatusCodesToRetry | Some l \<Rightarrow> l);
               methods =
                 (case methodsToRetry options of
                    None \<Rightarrow> defaultMethodsToRetry | Some l \<Rightarrow> l)
           in if isNetworkError error then Inr True
              else (case err_response error of
                      None \<Rightarrow> Inr False
                    | Some r \<Rightarrow>
                        if \<not> array_includes statusCodes (status r) then Inr False
                        else (case err_config error of
                                None \<Rightarrow> Inr False
                              | Some c \<Rightarrow>
                                  (case method' c of
                                     None \<Rightarrow>
                                       Inl (TypeError
                                         ''Cannot read properties of undefined'')
                                   | Some m \<Rightarrow>
                                       Inr (array_includes methods (toLowerCase m)))))))"

record axiosRetryConfig =
  ar_retries :: int
  ar_retryCondition :: "AxiosError \<Rightarrow> AxiosError + bool"

definition setupRetry :: "RetryOptions setting \<Rightarrow> axiosRetryConfig option" where
  "setupRetry retryOptions =
     (case retryOptions of
        Unset \<Rightarrow> None
      | Flag False \<Rightarrow> None
      | Flag True \<Rightarrow>
          Some \<lparr>ar_retries = retriesOr3 (retries noRetryOptions),
                ar_retryCondition = retryConditionOf noRetryOptions\<rparr>
      | Opts options \<Rightarrow>
          Some \<lparr>ar_retries = retriesOr3 (retries options),
                ar_retryCondition = retryConditionOf options\<rparr>)"

text \<open>
  Modelled from the spec: the request loop of axios-retry, the library that \<open>setupRetry\<close>
  configures, is a dependency and not among the sources. The specification: each
  attempt is a full transport invocation; retrying stops once the attempt count exceeds
  the configured maximum, or when the retry condition is false; the final failure is
  surfaced as it is. After a failed attempt the request has made \<open>retryCount + 1\<close>
  attempts, so that it is retried when \<open>retryCount < retries\<close>: this is also the test the
  library documents, its \<open>retries\<close> being the number of retries after the first failure.
  The transport is given as the outcome of its successive invocations. The result is
  the outcome for the caller and the number of times the transport was invoked.
\<close>

function axiosRetry_request ::
  "axiosRetryConfig \<Rightarrow> (nat \<Rightarrow> AxiosError + AxiosResponse) \<Rightarrow> nat
     \<Rightarrow> (AxiosError + AxiosResponse) \<times> nat" where
  "axiosRetry_request cfg transport retryCount =
     (case transport retryCount of
        Inr r \<Rightarrow> (Inr r, Suc retryCount)
      | Inl e \<Rightarrow>
          if int retryCount < ar_retries cfg then
            (case ar_retryCondition cfg e of
               Inl thrown \<Rightarrow> (Inl thrown, Suc retryCount)
             | Inr shouldRetry \<Rightarrow>
                 if shouldRetry then axiosRetry_request cfg transport (Suc retryCount)
                 else (Inl e, Suc retryCount))
          else (Inl e, Suc retryCount))"
  by pat_completeness auto
termination
  by (relation "measure (\<lambda>(cfg, transport, retryCount). nat (ar_retries cfg - int retryCount))")
    auto

text \<open>A request without axios-retry installed is one transport invocation.\<close>

definition sendWithRetry ::
  "axiosRetryConfig option \<Rightarrow> (nat \<Rightarrow> AxiosError + AxiosResponse)
     \<Rightarrow> (AxiosError + AxiosResponse) \<times> nat" where
  "sendWithRetry rc transport =
     (case rc of
        None \<Rightarrow> (transport 0, 1)
      | Some cfg \<Rightarrow> axiosRetry_request cfg transport 0)"

section \<open>Cache keys\<close>

text \<open>\<open>String(n)\<close> for an integer (below \<open>10^21\<close>, where JavaScript still prints digits).\<close>

fun showNat :: "nat \<Rightarrow> string" where
  "showNat n =
     (if n < 10 then [''0123456789'' ! n]
      else showNat (n div 10) @ [''0123456789'' ! (n mod 10)])"

definition showInt :: "int \<Rightarrow> string" where
  "showInt i = (if i < 0 then CHR ''-'' # showNat (nat (- i)) else showNat (nat i))"

definition hexDigit :: "nat \<Rightarrow> char" where
  "hexDigit d = ''0123456789abcdef'' ! (d mod 16)"

text \<open>QuoteJSONString: the double quote (34), the backslash (92) and the control
  characters are escaped.\<close>

definition quoteChar :: "char \<Rightarrow> string" where
  "quoteChar c =
     (let n = (of_char c :: nat) in
      if n = 34 then [CHR 0x5C, CHR 0x22]
      else if n = 92 then [CHR 0x5C, CHR 0x5C]
      else if n = 8 then [CHR 0x5C, CHR ''b'']
      else if n = 12 then [CHR 0x5C, CHR ''f'']
      else if n = 10 then [CHR 0x5C, CHR ''n'']
      else if n = 13 then [CHR 0x5C, CHR ''r'']
      else if n = 9 then [CHR 0x5C, CHR ''t'']
      else if n < 32 then
        [CHR 0x5C, CHR ''u'', CHR ''0'', CHR ''0'', hexDigit (n div 16), hexDigit n]
      else [c])"

definition quoteJSONString :: "string \<Rightarrow> string" where
  "quoteJSONString s = [CHR 0x22] @ concat (map quoteChar s) @ [CHR 0x22]"

text \<open>
  \<open>JSON.stringify(value, getCircularReplacer())\<close>. The serializer walks the value depth
  first and calls the replacer on every property value before it serializes it. The
  replacer keeps the set \<open>seen\<close> of the objects it was called on: an object met again,
  on a cycle or not, is replaced by the string \<open>[Circular Reference]\<close>, a new one is
  added to \<open>seen\<close> and serialized. The walk is a work list of values still to serialize and
  of text to emit between them. A property whose value is \<open>undefined\<close> or a function is
  left out of its object; in an array it is written \<open>null\<close>. A BigInt makes
  \<open>JSON.stringify\<close> throw a TypeError. An address beyond the heap reads as an object
  without properties.
\<close>

datatype item = Val jsval | Tok string

fun omitted :: "jsval \<Rightarrow> bool" where
  "omitted JUndefined = True"
| "omitted JFunction = True"
| "omitted v = False"

fun commaSep :: "item list list \<Rightarrow> item list" where
  "commaSep [] = []"
| "commaSep [x] = x"
| "commaSep (x # y # zs) = x @ Tok '','' # commaSep (y # zs)"

definition member :: "string \<times> jsval \<Rightarrow> item list" where
  "member p = [Tok (quoteJSONString (fst p) @ '':''), Val (snd p)]"

definition expand :: "jsobj \<Rightarrow> item list" where
  "expand obj =
     (case obj of
        JObject props \<Rightarrow>
          Tok ''{'' # commaSep (map member (filter (\<lambda>p. \<not> omitted (snd p)) props))
            @ [Tok ''}'']
      | JArray elems \<Rightarrow>
          Tok ''['' # commaSep (map (\<lambda>v. [Val v]) elems) @ [Tok '']''])"

definition circularMarker :: string where
  "circularMarker = ''[Circular Reference]''"

fun weight :: "item \<Rightarrow> nat" where
  "weight (Val v) = 2"
| "weight (Tok s) = 1"

definition unseen :: "heap \<Rightarrow> nat set \<Rightarrow> nat set" where
  "unseen h seen = {a. a < length h} - seen"

function stringifyLoop ::
  "heap \<Rightarrow> nat set \<Rightarrow> item list \<Rightarrow> string \<Rightarrow> AxiosError + string" where
  "stringifyLoop h seen [] out = Inr out"
| "stringifyLoop h seen (Tok s # rest) out = stringifyLoop h seen rest (out @ s)"
| "stringifyLoop h seen (Val v # rest) out =
     (case v of
        JUndefined \<Rightarrow> stringifyLoop h seen rest (out @ ''null'')
      | JFunction \<Rightarrow> stringifyLoop h seen rest (out @ ''null'')
      | JNull \<Rightarrow> stringifyLoop h seen rest (out @ ''null'')
      | JBool b \<Rightarrow> stringifyLoop h seen rest (out @ (if b then ''true'' else ''false''))
      | JNum n \<Rightarrow> stringifyLoop h seen rest (out @ showInt n)
      | JStr s \<Rightarrow> stringifyLoop h seen rest (out @ quoteJSONString s)
      | JBigInt n \<Rightarrow> Inl (TypeError ''Do not know how to serialize a BigInt'')
      | JRef a \<Rightarrow>
          if a \<in> seen then stringifyLoop h seen rest (out @ quoteJSONString circularMarker)
          else if a < length h then
            stringifyLoop h (insert a seen) (expand (h ! a) @ rest) out
          else stringifyLoop h (insert a seen) (Tok ''{}'' # rest) out)"
  by pat_completeness auto
termination
proof (relation "measures [\<lambda>(h, seen, st, out). card (unseen h seen),
                           \<lambda>(h, seen, st, out). sum_list (map weight st)]", goal_cases)
  case 1
  show ?case by simp
next
  case (10 h seen v rest out a)
  have "finite (unseen h seen)"
    by (simp add: unseen_def)
  moreover have "unseen h (insert a seen) \<subset> unseen h seen"
    using 10 by (auto simp: unseen_def)
  ultimately show ?case
    by (simp add: psubset_card_mono)
next
  case (11 h seen v rest out a)
  then have "unseen h (insert a seen) = unseen h seen"
    by (auto simp: unseen_def)
  then show ?case by simp
qed simp_all

text \<open>The result is \<open>undefined\<close> for a value that is \<open>undefined\<close> or a function.\<close>

definition JSON_stringify :: "heap \<Rightarrow> jsval \<Rightarrow> AxiosError + string option" where
  "JSON_stringify h v =
     (if omitted v then Inr None
      else (case stringifyLoop h {} [Val v] [] of
              Inl e \<Rightarrow> Inl e
            | Inr s \<Rightarrow> Inr (Some s)))"

datatype CacheStrategy = CACHE_FIRST | SIDE_CACHE | ONLY_CACHE | NO_CACHE

record CacheRouteConfig =
  pattern :: string
  route_strategy :: CacheStrategy
  route_ttl :: "int option"
  route_methods :: "string list option"

datatype cacheKeyOption = KeyString string | KeyFunction "AxiosRequestConfig \<Rightarrow> string"

record CacheOptions =
  ttl :: "int option"
  max_items :: "int option"
  methods :: "string list option"
  strategy :: "CacheStrategy option"
  routes :: "CacheRouteConfig list option"
  shouldCache :: "(AxiosResponse \<Rightarrow> bool) option"
  cacheKey :: "cacheKeyOption option"

definition noCacheOptions :: CacheOptions where
  "noCacheOptions =
     \<lparr>ttl = None, max_items = None, methods = None, strategy = None, routes = None,
      shouldCache = None, cacheKey = None\<rparr>"

text \<open>A value in a template literal: \<open>undefined\<close> prints as the word.\<close>

definition template :: "string option \<Rightarrow> string" where
  "template s = (case s of None \<Rightarrow> ''undefined'' | Some t \<Rightarrow> t)"

text \<open>
  The \<open>try\<close> block of \<open>generateCacheKey\<close>: the parameters are serialized first, then the
  body, each with a replacer of its own; the first exception leaves the block.
\<close>

definition serializeParamsAndData ::
  "heap \<Rightarrow> AxiosRequestConfig \<Rightarrow> AxiosError + (string option \<times> string option)" where
  "serializeParamsAndData h config =
     (case (if truthy (params config) then JSON_stringify h (params config)
            else Inr (Some [])) of
        Inl e \<Rightarrow> Inl e
      | Inr p \<Rightarrow>
          (case (if truthy (data config) then JSON_stringify h (data config)
                 else Inr (Some [])) of
             Inl e \<Rightarrow> Inl e
           | Inr d \<Rightarrow> Inr (p, d)))"

definition defaultCacheKey :: "heap \<Rightarrow> AxiosRequestConfig \<Rightarrow> string" where
  "defaultCacheKey h config =
     (let m = (case method' config of
                 None \<Rightarrow> ''get''
               | Some x \<Rightarrow> if toLowerCase x = [] then ''get'' else toLowerCase x);
          u = (case url config of None \<Rightarrow> [] | Some x \<Rightarrow> x);
          pd = (case serializeParamsAndData h config of
                  Inr r \<Rightarrow> r
                | Inl e \<Rightarrow>
                    (Some (if truthy (params config) then ''params-present'' else []),
                     Some (if truthy (data config) then ''data-present'' else [])))
      in ''http-cache:'' @ m @ '':'' @ u @ '':'' @ template (fst pd) @ '':''
           @ template (snd pd))"

definition generateCacheKey :: "heap \<Rightarrow> AxiosRequestConfig \<Rightarrow> CacheOptions \<Rightarrow> string" where
  "generateCacheKey h config options =
     (case cacheKey options of
        Some (KeyFunction f) \<Rightarrow> f config
      | Some (KeyString k) \<Rightarrow> if k \<noteq> [] then k else defaultCacheKey h config
      | None \<Rightarrow> defaultCacheKey h config)"

section \<open>Cache store\<close>

text \<open>
  The cache manager: a store of entries with their time to live, and a log of the reads
  and writes made on it. A store that is down rejects every read (\<open>getFailure\<close>) or every
  write (\<open>setFailure\<close>) with an error. Expiry is the store's business and is not
  modelled: \<open>entries\<close> is what the store still holds.
\<close>

datatype cache_op = CacheGet string | CacheSet string int

record Cache =
  entries :: "string \<rightharpoonup> SafeResponse \<times> int"
  getFailure :: "AxiosError option"
  setFailure :: "AxiosError option"
  ops :: "cache_op list"

definition cache_get :: "Cache \<Rightarrow> string \<Rightarrow> (AxiosError + SafeResponse option) \<times> Cache" where
  "cache_get c k =
     ((case getFailure c of
         Some e \<Rightarrow> Inl e
       | None \<Rightarrow> Inr (map_option fst (entries c k))),
      c\<lparr>ops := ops c @ [CacheGet k]\<rparr>)"

definition cache_set ::
  "Cache \<Rightarrow> string \<Rightarrow> SafeResponse \<Rightarrow> int \<Rightarrow> (AxiosError + unit) \<times> Cache" where
  "cache_set c k v t =
     (case setFailure c of
        Some e \<Rightarrow> (Inl e, c\<lparr>ops := ops c @ [CacheSet k t]\<rparr>)
      | None \<Rightarrow>
          (Inr (), c\<lparr>entries := (entries c)(k \<mapsto> (v, t)), ops := ops c @ [CacheSet k t]\<rparr>))"

section \<open>Cache interceptors\<close>

text \<open>\<open>methods.includes(config.method?.toLowerCase() || '')\<close> with
  \<open>methods = options.methods || ['get']\<close>.\<close>

definition cacheableMethod :: "CacheOptions \<Rightarrow> string option \<Rightarrow> bool" where
  "cacheableMethod options m =
     array_includes (case methods options of None \<Rightarrow> [''get''] | Some l \<Rightarrow> l)
       (case m of None \<Rightarrow> [] | Some x \<Rightarrow> toLowerCase x)"

text \<open>
  The request interceptor of \<open>setupCache\<close>. \<open>await this.cacheManager.get(cacheKey)\<close>
  stands outside any \<open>try\<close>: a read the store rejects rejects the interceptor.
\<close>

definition cacheRequestInterceptor ::
  "heap \<Rightarrow> CacheOptions \<Rightarrow> Cache \<Rightarrow> AxiosRequestConfig
     \<Rightarrow> (AxiosError + AxiosRequestConfig) \<times> Cache" where
  "cacheRequestInterceptor h options cache config =
     (if \<not> cacheableMethod options (method' config) then (Inr config, cache)
      else (case cache_get cache (generateCacheKey h config options) of
              (Inl e, cache') \<Rightarrow> (Inl e, cache')
            | (Inr None, cache') \<Rightarrow> (Inr config, cache')
            | (Inr (Some cachedResponse), cache') \<Rightarrow>
                (Inr (config\<lparr>adapter := Some cachedResponse\<rparr>), cache')))"

definition safeResponse :: "AxiosResponse \<Rightarrow> SafeResponse" where
  "safeResponse response =
     \<lparr>safe_data = resp_data response,
      safe_status = status response,
      safe_statusText = statusText response,
      safe_resp_headers = resp_headers response,
      safe_config =
        \<lparr>safe_url = url (resp_config response),
         safe_method = method' (resp_config response),
         safe_headers = headers (resp_config response)\<rparr>\<rparr>"

text \<open>\<open>options.ttl || 60000\<close>.\<close>

definition ttlOr60000 :: "int option \<Rightarrow> int" where
  "ttlOr60000 t = (case t of None \<Rightarrow> 60000 | Some n \<Rightarrow> if n = 0 then 60000 else n)"

text \<open>
  The response interceptor of \<open>setupCache\<close>. The write is inside \<open>try\<close>/\<open>catch\<close>: an
  error of the store is logged and the response is returned all the same.
\<close>

definition cacheResponseInterceptor ::
  "heap \<Rightarrow> CacheOptions \<Rightarrow> Cache \<Rightarrow> AxiosResponse \<Rightarrow> AxiosResponse \<times> Cache" where
  "cacheResponseInterceptor h options cache response =
     (if \<not> cacheableMethod options (method' (resp_config response)) then (response, cache)
      else if (case shouldCache options of Some p \<Rightarrow> \<not> p response | None \<Rightarrow> False)
      then (response, cache)
      else (case cache_set cache (generateCacheKey h (resp_config response) options)
                   (safeResponse response) (ttlOr60000 (ttl options)) of
              (Inl e, cache') \<Rightarrow> (response, cache')
            | (Inr u, cache') \<Rightarrow> (response, cache')))"

definition setupCache :: "CacheOptions setting \<Rightarrow> bool \<Rightarrow> CacheOptions option" where
  "setupCache cacheOptions hasCacheManager =
     (case cacheOptions of
        Unset \<Rightarrow> None
      | Flag False \<Rightarrow> None
      | Flag True \<Rightarrow> if hasCacheManager then Some noCacheOptions else None
      | Opts options \<Rightarrow> if hasCacheManager then Some options else None)"

section \<open>Middlewares\<close>

text \<open>
  A value that is thrown, rejected or passed along the error chain: an \<open>Error\<close>
  instance, a response, or any other value.
\<close>

datatype payload = PError AxiosError | PResponse AxiosResponse | PValue jsval

fun instanceofError :: "payload \<Rightarrow> bool" where
  "instanceofError (PError e) = True"
| "instanceofError (PResponse r) = False"
| "instanceofError (PValue v) = False"

text \<open>What awaiting \<open>middleware.process(x)\<close> gives: a value, or an exception (a throw or
  a rejected promise).\<close>

datatype 'a completion = Returned 'a | Thrown payload

record 'a Middleware =
  priority :: "int option"
  process :: "'a \<Rightarrow> 'a completion"

text \<open>\<open>middleware.priority || 0\<close>.\<close>

definition priorityOr0 :: "'a Middleware \<Rightarrow> int" where
  "priorityOr0 m = (case priority m of None \<Rightarrow> 0 | Some p \<Rightarrow> p)"

text \<open>
  \<open>[...middlewares].sort((a, b) => (a.priority || 0) - (b.priority || 0))\<close>: a copy of the
  registry, sorted. \<open>Array.prototype.sort\<close> is stable, and a stable sort on a key is the
  insertion sort \<open>sort_key\<close>.
\<close>

definition sortedMiddlewares :: "'a Middleware list \<Rightarrow> 'a Middleware list" where
  "sortedMiddlewares ms = sort_key priorityOr0 ms"

text \<open>
  The loop of the request and of the response interceptor, with the middlewares it has
  called, in order. An exception leaves the loop and is rejected.
\<close>

fun applyMiddlewares :: "'a Middleware list \<Rightarrow> 'a \<Rightarrow> 'a completion \<times> 'a Middleware list" where
  "applyMiddlewares [] current = (Returned current, [])"
| "applyMiddlewares (m # ms) current =
     (case process m current of
        Thrown e \<Rightarrow> (Thrown e, [m])
      | Returned next \<Rightarrow>
          (case applyMiddlewares ms next of (r, called) \<Rightarrow> (r, m # called)))"

text \<open>
  The loop of the error interceptor: it returns as soon as a middleware gives a value
  that is not an \<open>Error\<close>, and rejects the last error when none does.
\<close>

fun applyErrorMiddlewares ::
  "payload Middleware list \<Rightarrow> payload \<Rightarrow> payload completion \<times> payload Middleware list" where
  "applyErrorMiddlewares [] currentError = (Thrown currentError, [])"
| "applyErrorMiddlewares (m # ms) currentError =
     (case process m currentError of
        Thrown e \<Rightarrow> (Thrown e, [m])
      | Returned next \<Rightarrow>
          if \<not> instanceofError next then (Returned next, [m])
          else (case applyErrorMiddlewares ms next of (r, called) \<Rightarrow> (r, m # called)))"

section \<open>The service\<close>

record HttpModuleOptions =
  retry :: "RetryOptions setting"
  cache :: "CacheOptions setting"

record HttpService =
  retryConfig :: "axiosRetryConfig option"
  cacheConfig :: "CacheOptions option"
  requestMiddlewares :: "AxiosRequestConfig Middleware list"
  responseMiddlewares :: "AxiosResponse Middleware list"
  errorMiddlewares :: "payload Middleware list"

text \<open>The constructor, for module options without global interceptors.\<close>

definition newHttpService :: "HttpModuleOptions \<Rightarrow> bool \<Rightarrow> HttpService" where
  "newHttpService httpModuleOptions hasCacheManager =
     \<lparr>retryConfig = setupRetry (retry httpModuleOptions),
      cacheConfig = setupCache (cache httpModuleOptions) hasCacheManager,
      requestMiddlewares = [],
      responseMiddlewares = [],
      errorMiddlewares = []\<rparr>"



definition registerErrorMiddleware :: "payload Middleware \<Rightarrow> HttpService \<Rightarrow> HttpService" where
  "registerErrorMiddleware middleware s =
     s\<lparr>errorMiddlewares := errorMiddlewares s @ [middleware]\<rparr>"

text \<open>The three middleware interceptors of \<open>setupInterceptors\<close>.\<close>

definition requestStage ::
  "HttpService \<Rightarrow> AxiosRequestConfig
     \<Rightarrow> AxiosRequestConfig completion \<times> AxiosRequestConfig Middleware list" where
  "requestStage s config = applyMiddlewares (sortedMiddlewares (requestMiddlewares s)) config"

definition responseStage ::
  "HttpService \<Rightarrow> AxiosResponse \<Rightarrow> AxiosResponse completion \<times> AxiosResponse Middleware list" where
  "responseStage s response =
     applyMiddlewares (sortedMiddlewares (responseMiddlewares s)) response"

definition errorStage ::
  "HttpService \<Rightarrow> payload \<Rightarrow> payload completion \<times> payload Middleware list" where
  "errorStage s error = applyErrorMiddlewares (sortedMiddlewares (errorMiddlewares s)) error"

text \<open>
  What the adapter installed on a cache hit resolves to: the cached object, whose
  \<open>config\<close> has a url, a method and headers and nothing else.
\<close>

definition cachedAdapter :: "SafeResponse \<Rightarrow> AxiosResponse" where
  "cachedAdapter c =
     \<lparr>resp_data = safe_data c,
      status = safe_status c,
      statusText = safe_statusText c,
      resp_headers = safe_resp_headers c,
      resp_config =
        \<lparr>method' = safe_method (safe_config c),
         url = safe_url (safe_config c),
         params = JUndefined,
         data = JUndefined,
         headers = safe_headers (safe_config c),
         adapter = None\<rparr>\<rparr>"

text \<open>
  One pass of a request through the instance, as axios chains the interceptors: the
  request interceptors run last registered first (the middlewares, then the cache
  lookup), then the adapter of the configuration or else the transport, then the
  response interceptors in the order of registration (the cache write, then the
  middlewares). A rejection on the way skips to the error middlewares: the cache
  interceptors have no handler for it. The result is what the caller gets, the cache
  afterwards, and how many times the transport was called. This is the request of a
  service on which no retry is configured (axios-retry re-enters the instance for each
  retry), for a configuration whose method is set (axios fills in and lowercases the
  method before the interceptors run); the transformation axios applies to the body and
  to the response data is left out.
\<close>

definition request ::
  "heap \<Rightarrow> HttpService \<Rightarrow> (AxiosRequestConfig \<Rightarrow> AxiosError + AxiosResponse) \<Rightarrow> Cache
     \<Rightarrow> AxiosRequestConfig \<Rightarrow> payload completion \<times> Cache \<times> nat" where
  "request h s transport cache0 config0 =
     (case fst (requestStage s config0) of
        Thrown e \<Rightarrow> (fst (errorStage s e), cache0, 0)
      | Returned config1 \<Rightarrow>
          (case (case cacheConfig s of
                   None \<Rightarrow> (Inr config1, cache0)
                 | Some options \<Rightarrow> cacheRequestInterceptor h options cache0 config1) of
             (Inl e, cache1) \<Rightarrow> (fst (errorStage s (PError e)), cache1, 0)
           | (Inr config2, cache1) \<Rightarrow>
               (case (case adapter config2 of
                        Some cachedResponse \<Rightarrow> (Inr (cachedAdapter cachedResponse), 0)
                      | None \<Rightarrow> (transport config2, 1)) of
                  (Inl e, calls) \<Rightarrow> (fst (errorStage s (PError e)), cache1, calls)
                | (Inr response, calls) \<Rightarrow>
                    (case (case cacheConfig s of
                             None \<Rightarrow> (response, cache1)
                           | Some options \<Rightarrow>
                               cacheResponseInterceptor h options cache1 response) of
                       (response', cache2) \<Rightarrow>
                         (case fst (responseStage s response') of
                            Thrown e \<Rightarrow> (Thrown e, cache2, calls)
                          | Returned r \<Rightarrow> (Returned (PResponse r), cache2, calls))))))"

section \<open>Example inputs\<close>

definition getPokemon25 :: AxiosRequestConfig where
  "getPokemon25 =
     \<lparr>method' = Some ''get'', url = Some ''/pokemon/25'', params = JUndefined,
      data = JUndefined, headers = [], adapter = None\<rparr>"

definition error503 :: "nat \<Rightarrow> AxiosError" where
  "error503 attempt =
     \<lparr>message = ''Request failed with status code 503, attempt '' @ showNat attempt,
      err_response =
        Some \<lparr>resp_data = JNull, status = 503, statusText = ''Service Unavailable'',
              resp_headers = [], resp_config = getPokemon25\<rparr>,
      err_config = Some getPokemon25,
      retryableCode = False\<rparr>"

definition alwaysFailing :: "nat \<Rightarrow> AxiosError + AxiosResponse" where
  "alwaysFailing attempt = Inl (error503 attempt)"

section \<open>The retry decision in words\<close>

text \<open>
  The retry decision as the specification words it: a network-level failure is a
  failure for which no response was received, and the method is compared with the
  retryable methods case-insensitively.
\<close>

definition spec_shouldRetry :: "RetryOptions \<Rightarrow> AxiosError \<Rightarrow> bool" where
  "spec_shouldRetry options error =
     (case retryCondition options of
        Some p \<Rightarrow> p error
      | None \<Rightarrow>
          err_response error = None \<or>
          ((case err_response error of
              None \<Rightarrow> False
            | Some r \<Rightarrow>
                array_includes
                  (case statusCodesToRetry options of
                     None \<Rightarrow> defaultStatusCodesToRetry | Some l \<Rightarrow> l)
                  (status r)) \<and>
           (case err_config error of
              None \<Rightarrow> False
            | Some c \<Rightarrow>
                (case method' c of
                   None \<Rightarrow> False
                 | Some m \<Rightarrow>
                     array_includes
                       (map toLowerCase
                          (case methodsToRetry options of
                             None \<Rightarrow> defaultMethodsToRetry | Some l \<Rightarrow> l))
                       (toLowerCase m)))))"

text \<open>
  The retry decision as amended. A network error is one in the sense of axios-retry:
  no response was received and the code of the error is one the library retries (it is
  set, is neither \<open>ECONNABORTED\<close> nor \<open>ERR_CANCELED\<close>, and is retry-allowed), so that a
  timeout or a cancelled request is not one. The request method is lowercased and the
  entries of the retryable methods are taken as they are written.
\<close>

definition amended_shouldRetry :: "RetryOptions \<Rightarrow> AxiosError \<Rightarrow> bool" where
  "amended_shouldRetry options error =
     (case retryCondition options of
        Some p \<Rightarrow> p error
      | None \<Rightarrow>
          (err_response error = None \<and> retryableCode error) \<or>
          ((case err_response error of
              None \<Rightarrow> False
            | Some r \<Rightarrow>
                array_includes
                  (case statusCodesToRetry options of
                     None \<Rightarrow> defaultStatusCodesToRetry | Some l \<Rightarrow> l)
                  (status r)) \<and>
           (case err_config error of
              None \<Rightarrow> False
            | Some c \<Rightarrow>
                (case method' c of
                   None \<Rightarrow> False
                 | Some m \<Rightarrow>
                     array_includes
                       (case methodsToRetry options of
                          None \<Rightarrow> defaultMethodsToRetry | Some l \<Rightarrow> l)
                       (toLowerCase m)))))"

text \<open>An error without a configuration, or whose configuration has its method set (as
  every configuration axios has dispatched has).\<close>

definition carriesMethod :: "AxiosError \<Rightarrow> bool" where
  "carriesMethod e = (case err_config e of None \<Rightarrow> True | Some c \<Rightarrow> method' c \<noteq> None)"

section \<open>The middleware stages in words\<close>





section \<open>More example inputs\<close>

text \<open>
  A timeout: no response was received; axios gives the error the code \<open>ECONNABORTED\<close>,
  which \<open>isNetworkError\<close> leaves out. A connection reset: no response, and the code
  \<open>ECONNRESET\<close>, which it retries.
\<close>

definition timeoutError :: AxiosError where
  "timeoutError =
     \<lparr>message = ''timeout of 5000ms exceeded'', err_response = None,
      err_config = Some getPokemon25, retryableCode = False\<rparr>"

definition connectionReset :: AxiosError where
  "connectionReset =
     \<lparr>message = ''read ECONNRESET'', err_response = None,
      err_config = Some getPokemon25, retryableCode = True\<rparr>"



text \<open>Retry options that list the retryable method in upper case.\<close>

definition upperCaseRetryOptions :: RetryOptions where
  "upperCaseRetryOptions = noRetryOptions\<lparr>methodsToRetry := Some [''GET'']\<rparr>"

text \<open>A GET (the method as axios has normalised it) that was answered with status 500.\<close>

definition error500GET :: AxiosError where
  "error500GET =
     \<lparr>message = ''Request failed with status code 500'',
      err_response =
        Some \<lparr>resp_data = JNull, status = 500, statusText = ''Internal Server Error'',
              resp_headers = [], resp_config = getPokemon25\<rparr>,
      err_config = Some getPokemon25,
      retryableCode = False\<rparr>"


text \<open>The heap of the examples: at address 0 the object \<open>{found: false}\<close>.\<close>

definition exampleHeap :: heap where
  "exampleHeap = [JObject [(''found'', JBool False)]]"

text \<open>An error middleware of priority 5 that turns a 404 into \<open>{found: false}\<close>.\<close>

definition notFoundToValue :: "payload Middleware" where
  "notFoundToValue =
     \<lparr>priority = Some 5,
      process = (\<lambda>p. case p of
                   PError e \<Rightarrow>
                     (case err_response e of
                        Some r \<Rightarrow>
                          if status r = 404 then Returned (PValue (JRef 0)) else Returned p
                      | None \<Rightarrow> Returned p)
                 | PResponse r \<Rightarrow> Returned p
                 | PValue v \<Rightarrow> Returned p)\<rparr>"

text \<open>The error middleware of the example service: priority 10, logs and rejects.\<close>

definition logAndReject :: "payload Middleware" where
  "logAndReject = \<lparr>priority = Some 10, process = (\<lambda>p. Thrown p)\<rparr>"

definition passError :: "payload Middleware" where
  "passError = \<lparr>priority = None, process = (\<lambda>p. Returned p)\<rparr>"




definition pokeService :: HttpService where
  "pokeService =
     registerErrorMiddleware notFoundToValue
       (registerErrorMiddleware passError
          (registerErrorMiddleware logAndReject
             (newHttpService \<lparr>retry = Unset, cache = Unset\<rparr> False)))"

definition emptyCache :: Cache where
  "emptyCache = \<lparr>entries = Map.empty, getFailure = None, setFailure = None, ops = []\<rparr>"

definition keyPokemon25 :: string where
  "keyPokemon25 = ''http-cache:get:/pokemon/25::''"

definition cachedPikachu :: SafeResponse where
  "cachedPikachu =
     \<lparr>safe_data = JStr ''pikachu (cached)'', safe_status = 200, safe_statusText = ''OK'',
      safe_resp_headers = [],
      safe_config = \<lparr>safe_url = Some ''/pokemon/25'', safe_method = Some ''get'',
                      safe_headers = []\<rparr>\<rparr>"

definition liveTransport :: "AxiosRequestConfig \<Rightarrow> AxiosError + AxiosResponse" where
  "liveTransport config =
     Inr \<lparr>resp_data = JStr ''pikachu (live)'', status = 200, statusText = ''OK'',
          resp_headers = [], resp_config = config\<rparr>"

definition populatedCache :: Cache where
  "populatedCache = emptyCache\<lparr>entries := [keyPokemon25 \<mapsto> (cachedPikachu, 60000)]\<rparr>"

text \<open>A service whose cache strategy is side-cache for every request.\<close>

definition sideCacheService :: HttpService where
  "sideCacheService =
     newHttpService
       \<lparr>retry = Unset, cache = Opts (noCacheOptions\<lparr>strategy := Some SIDE_CACHE\<rparr>)\<rparr> True"

text \<open>The scenario of the specification: a cache-first default of one minute, and a
  side-cache rule of one hour for \<open>/pokemon/.*\<close>.\<close>

definition routeRuleService :: HttpService where
  "routeRuleService =
     newHttpService
       \<lparr>retry = Unset,
        cache = Opts (noCacheOptions
          \<lparr>ttl := Some 60000, strategy := Some CACHE_FIRST, methods := Some [''get''],
           routes := Some [\<lparr>pattern = ''/pokemon/.*'', route_strategy = SIDE_CACHE,
                            route_ttl = Some 3600000, route_methods = None\<rparr>]\<rparr>)\<rparr> True"

definition storeDown :: AxiosError where
  "storeDown =
     \<lparr>message = ''connect ECONNREFUSED 127.0.0.1:6379'', err_response = None,
      err_config = None, retryableCode = False\<rparr>"

definition brokenCache :: Cache where
  "brokenCache = emptyCache\<lparr>getFailure := Some storeDown\<rparr>"

definition plainCacheService :: HttpService where
  "plainCacheService = newHttpService \<lparr>retry = Unset, cache = Flag True\<rparr> True"

definition postOrder :: AxiosRequestConfig where
  "postOrder =
     \<lparr>method' = Some ''POST'', url = Some ''/orders'', params = JUndefined,
      data = JRef 0, headers = [], adapter = None\<rparr>"

definition error500Post :: AxiosError where
  "error500Post =
     \<lparr>message = ''Request failed with status code 500'',
      err_response =
        Some \<lparr>resp_data = JNull, status = 500, statusText = ''Internal Server Error'',
              resp_headers = [], resp_config = postOrder\<rparr>,
      err_config = Some postOrder,
      retryableCode = False\<rparr>"

definition created201 :: AxiosResponse where
  "created201 =
     \<lparr>resp_data = JNull, status = 201, statusText = ''Created'', resp_headers = [],
      resp_config = postOrder\<rparr>"

section \<open>Structural equality and renaming of object identities\<close>

text \<open>
  The tree a value unfolds to, references followed down to the given depth: nothing
  when the value goes deeper (a cyclic value has no finite tree).
\<close>

datatype jstree =
    TUndefined | TNull | TBool bool | TNum int | TStr string | TBigInt int | TFunction
  | TObject "(string \<times> jstree) list"
  | TArray "jstree list"

fun treeOf :: "nat \<Rightarrow> heap \<Rightarrow> jsval \<Rightarrow> jstree option" where
  "treeOf n h JUndefined = Some TUndefined"
| "treeOf n h JNull = Some TNull"
| "treeOf n h (JBool b) = Some (TBool b)"
| "treeOf n h (JNum i) = Some (TNum i)"
| "treeOf n h (JStr s) = Some (TStr s)"
| "treeOf n h (JBigInt i) = Some (TBigInt i)"
| "treeOf n h JFunction = Some TFunction"
| "treeOf 0 h (JRef a) = None"
| "treeOf (Suc n) h (JRef a) =
     (if a < length h then
        (case h ! a of
           JObject props \<Rightarrow>
             map_option TObject
               (those (map (\<lambda>p. map_option (Pair (fst p)) (treeOf n h (snd p))) props))
         | JArray elems \<Rightarrow> map_option TArray (those (map (treeOf n h) elems)))
      else Some (TObject []))"

text \<open>
  Two request configurations are structurally equal when they have the same method and
  url and their parameters, and their bodies, unfold to the same finite tree.
\<close>

definition structurallyEqual ::
  "nat \<Rightarrow> heap \<Rightarrow> AxiosRequestConfig \<Rightarrow> AxiosRequestConfig \<Rightarrow> bool" where
  "structurallyEqual depth h c1 c2 =
     (method' c1 = method' c2 \<and> url c1 = url c2
      \<and> treeOf depth h (params c1) \<noteq> None
      \<and> treeOf depth h (params c1) = treeOf depth h (params c2)
      \<and> treeOf depth h (data c1) \<noteq> None
      \<and> treeOf depth h (data c1) = treeOf depth h (data c2))"

text \<open>
  The same object graph at other addresses: \<open>f\<close> renames the addresses, one to one,
  and \<open>h'\<close> holds at \<open>f a\<close> the object \<open>h\<close> holds at \<open>a\<close>, with its references renamed.
  Such a renaming keeps the structure and the sharing.
\<close>

definition renameVal :: "(nat \<Rightarrow> nat) \<Rightarrow> jsval \<Rightarrow> jsval" where
  "renameVal f v = (case v of JRef a \<Rightarrow> JRef (f a) | _ \<Rightarrow> v)"

definition renameObj :: "(nat \<Rightarrow> nat) \<Rightarrow> jsobj \<Rightarrow> jsobj" where
  "renameObj f obj =
     (case obj of
        JObject props \<Rightarrow> JObject (map (\<lambda>p. (fst p, renameVal f (snd p))) props)
      | JArray elems \<Rightarrow> JArray (map (renameVal f) elems))"

definition renamedHeap :: "(nat \<Rightarrow> nat) \<Rightarrow> heap \<Rightarrow> heap \<Rightarrow> bool" where
  "renamedHeap f h h' =
     (inj f \<and> length h' = length h
      \<and> (\<forall>a. (f a < length h) = (a < length h))
      \<and> (\<forall>a. a < length h \<longrightarrow> h' ! f a = renameObj f (h ! a)))"

definition renameConfig :: "(nat \<Rightarrow> nat) \<Rightarrow> AxiosRequestConfig \<Rightarrow> AxiosRequestConfig" where
  "renameConfig f config =
     config\<lparr>params := renameVal f (params config), data := renameVal f (data config)\<rparr>"

fun renameItem :: "(nat \<Rightarrow> nat) \<Rightarrow> item \<Rightarrow> item" where
  "renameItem f (Val v) = Val (renameVal f v)"
| "renameItem f (Tok s) = Tok s"

text \<open>
  At address 0 an object whose properties \<open>a\<close> and \<open>b\<close> refer to one object \<open>{v: 1}\<close>; at
  address 1 an object whose properties refer to two equal objects \<open>{v: 1}\<close>.
\<close>

definition sharingHeap :: heap where
  "sharingHeap =
     [JObject [(''a'', JRef 2), (''b'', JRef 2)],
      JObject [(''a'', JRef 2), (''b'', JRef 3)],
      JObject [(''v'', JNum 1)],
      JObject [(''v'', JNum 1)]]"

definition sharedParams :: AxiosRequestConfig where
  "sharedParams = getPokemon25\<lparr>params := JRef 0\<rparr>"

definition copiedParams :: AxiosRequestConfig where
  "copiedParams = getPokemon25\<lparr>params := JRef 1\<rparr>"

text \<open>An object that refers to itself and to a second object that refers back.\<close>

definition circularHeap :: heap where
  "circularHeap =
     [JObject [(''name'', JStr ''pikachu''), (''self'', JRef 0), (''friend'', JRef 1)],
      JObject [(''back'', JRef 0)]]"

definition circularHeapSwapped :: heap where
  "circularHeapSwapped =
     [JObject [(''back'', JRef 1)],
      JObject [(''name'', JStr ''pikachu''), (''self'', JRef 1), (''friend'', JRef 0)]]"

definition swap01 :: "nat \<Rightarrow> nat" where
  "swap01 a = (if a = 0 then 1 else if a = 1 then 0 else a)"

definition circularParams :: AxiosRequestConfig where
  "circularParams = getPokemon25\<lparr>params := JRef 0\<rparr>"

definition bigIntBody :: AxiosRequestConfig where
  "bigIntBody = postOrder\<lparr>params := JNum 7, data := JBigInt 1\<rparr>"

section \<open>Properties\<close>

subsection \<open>Retry\<close>

lemma axiosRetry_always_failing:
  assumes fail: "\<And>i. \<exists>e. transport i = Inl e \<and> ar_retryCondition cfg e = Inr True"
    and k: "int k \<le> ar_retries cfg"
  shows "axiosRetry_request cfg transport k
           = (transport (nat (ar_retries cfg)), Suc (nat (ar_retries cfg)))"
  using k
proof (induction "nat (ar_retries cfg) - k" arbitrary: k)
  case 0
  then have eq: "nat (ar_retries cfg) = k" by simp
  obtain e where e: "transport k = Inl e" using fail by blast
  have "\<not> int k < ar_retries cfg" using eq by linarith
  then show ?case using e eq by (subst axiosRetry_request.simps) simp
next
  case (Suc d)
  obtain e where e: "transport k = Inl e" "ar_retryCondition cfg e = Inr True" using fail by blast
  have lt: "int k < ar_retries cfg" using Suc.hyps(2) by linarith
  have "axiosRetry_request cfg transport (Suc k)
           = (transport (nat (ar_retries cfg)), Suc (nat (ar_retries cfg)))"
    using Suc.hyps(2) lt by (intro Suc.hyps(1)) auto
  then show ?case using e lt by (subst axiosRetry_request.simps) simp
qed

text \<open>
  C3 (amended). With the default of 3 retries and a transport that fails every attempt
  with an error the retry condition accepts, the transport is invoked exactly 4 times
  (the first attempt and 3 retries), and the error the caller gets is the error of the
  last attempt, unchanged: the retry loop rejects it as it is, and the error interceptor
  of a service without error middlewares rejects the error it is given.
\<close>

theorem retry_ceiling:
  assumes "retriesOr3 (retries options) = 3"
    and "\<forall>i. \<exists>e. transport i = Inl e \<and> retryConditionOf options e = Inr True"
  shows "sendWithRetry (setupRetry (Opts options)) transport = (transport 3, 4)
     \<and> (if errorMiddlewares s = [] then fst (errorStage s error) = Thrown error else True)"
proof -
  let ?cfg = "\<lparr>ar_retries = 3, ar_retryCondition = retryConditionOf options\<rparr>"
  have "axiosRetry_request ?cfg transport 0
          = (transport (nat (ar_retries ?cfg)), Suc (nat (ar_retries ?cfg)))"
    using assms(2) by (intro axiosRetry_always_failing) auto
  then have "sendWithRetry (setupRetry (Opts options)) transport = (transport 3, 4)"
    using assms(1) by (simp add: sendWithRetry_def setupRetry_def)
  then show ?thesis
    by (simp add: errorStage_def sortedMiddlewares_def)
qed

lemma retryable503: "retryConditionOf noRetryOptions (error503 i) = Inr True"
  by (simp add: retryConditionOf_def noRetryOptions_def error503_def getPokemon25_def
      isNetworkError_def array_includes_def defaultStatusCodesToRetry_def
      defaultMethodsToRetry_def toLowerCase_def)

theorem retry_ceiling_witness:
  "retriesOr3 (retries noRetryOptions) = 3
   \<and> sendWithRetry (setupRetry (Opts noRetryOptions)) alwaysFailing = (Inl (error503 3), 4)"
proof -
  have r: "retriesOr3 (retries noRetryOptions) = 3"
    by (simp add: retriesOr3_def noRetryOptions_def)
  have f: "\<forall>i. \<exists>e. alwaysFailing i = Inl e \<and> retryConditionOf noRetryOptions e = Inr True"
    by (simp add: alwaysFailing_def retryable503)
  have l: "alwaysFailing 3 = Inl (error503 3)"
    by (simp add: alwaysFailing_def)
  show ?thesis
    using retry_ceiling [OF r f, of pokeService] r l by simp
qed

text \<open>
  The claim as stated says 3 invocations: a transport that always answers 503 to a GET
  is invoked 4 times under the default options.
\<close>

theorem retry_three_invocations_counterexample:
  "snd (sendWithRetry (setupRetry (Opts noRetryOptions)) alwaysFailing) = 4
   \<and> snd (sendWithRetry (setupRetry (Opts noRetryOptions)) alwaysFailing) \<noteq> 3"
  by (simp add: sendWithRetry_def setupRetry_def retriesOr3_def noRetryOptions_def
      alwaysFailing_def retryable503 [unfolded noRetryOptions_def])

text \<open>
  C6 (amended). For a failed attempt whose configuration carries a method, the retry
  decision is: the custom \<open>retryCondition\<close> alone when one is configured; otherwise retry
  exactly when the failure is a network error in the sense of axios-retry (no response
  was received and the code of the error is one the library retries, which leaves out a
  timeout and a cancelled request), or the status is in the retryable statuses and the
  lowercased request method is one of the retryable methods as they are written in the
  options.
\<close>

theorem retry_decision:
  assumes "carriesMethod error"
  shows "retryConditionOf options error = Inr (amended_shouldRetry options error)"
  using assms
  by (auto simp: retryConditionOf_def amended_shouldRetry_def carriesMethod_def
      isNetworkError_def Let_def split: option.splits)

lemmas retry_example_defs = amended_shouldRetry_def upperCaseRetryOptions_def
  noRetryOptions_def error500GET_def timeoutError_def connectionReset_def getPokemon25_def
  array_includes_def defaultStatusCodesToRetry_def defaultMethodsToRetry_def toLowerCase_def

text \<open>
  A GET answered with 500 is retried under the default options and not when the options
  list \<open>GET\<close> in upper case; a timeout is not retried; a connection reset is.
\<close>

theorem retry_decision_witness:
  "carriesMethod error500GET
   \<and> retryConditionOf upperCaseRetryOptions error500GET = Inr False
   \<and> retryConditionOf noRetryOptions error500GET = Inr True
   \<and> carriesMethod timeoutError
   \<and> retryConditionOf noRetryOptions timeoutError = Inr False
   \<and> carriesMethod connectionReset
   \<and> retryConditionOf noRetryOptions connectionReset = Inr True"
proof -
  have h: "carriesMethod error500GET" "carriesMethod timeoutError"
    "carriesMethod connectionReset"
    by (simp_all add: carriesMethod_def error500GET_def timeoutError_def connectionReset_def
        getPokemon25_def)
  have a: "amended_shouldRetry upperCaseRetryOptions error500GET = False"
    by (simp add: retry_example_defs)
  have b: "amended_shouldRetry noRetryOptions error500GET = True"
    by (simp add: retry_example_defs)
  have c: "amended_shouldRetry noRetryOptions timeoutError = False"
    by (simp add: retry_example_defs)
  have d: "amended_shouldRetry noRetryOptions connectionReset = True"
    by (simp add: retry_example_defs)
  show ?thesis
    using retry_decision [OF h(1), of upperCaseRetryOptions]
      retry_decision [OF h(1), of noRetryOptions]
      retry_decision [OF h(2), of noRetryOptions]
      retry_decision [OF h(3), of noRetryOptions] h a b c d
    by simp
qed

text \<open>
  The claim as stated fails twice. It compares case-insensitively: with
  \<open>methodsToRetry: ['GET']\<close> a GET that fails with status 500 would be retried, and the
  code does not retry it, since the lowercased method \<open>get\<close> is not the entry \<open>GET\<close>. And
  it retries every failure for which no response was received: a timeout has no
  response, and the code does not retry it.
\<close>

theorem retry_case_insensitive_counterexample:
  "spec_shouldRetry upperCaseRetryOptions error500GET
   \<and> retryConditionOf upperCaseRetryOptions error500GET = Inr False
   \<and> spec_shouldRetry noRetryOptions timeoutError
   \<and> retryConditionOf noRetryOptions timeoutError = Inr False"
  by (simp add: spec_shouldRetry_def retryConditionOf_def upperCaseRetryOptions_def
      noRetryOptions_def error500GET_def timeoutError_def getPokemon25_def isNetworkError_def
      array_includes_def defaultStatusCodesToRetry_def defaultMethodsToRetry_def
      toLowerCase_def)

subsection \<open>Method gating and zero options\<close>

lemma key25:
  "cacheKey options = None \<Longrightarrow> generateCacheKey exampleHeap getPokemon25 options = keyPokemon25"
  by (simp add: generateCacheKey_def defaultCacheKey_def serializeParamsAndData_def
      getPokemon25_def keyPokemon25_def template_def toLowerCase_def)

lemma cachedAdapter_pikachu:
  "resp_config (cachedAdapter cachedPikachu) = getPokemon25"
  "safeResponse (cachedAdapter cachedPikachu) = cachedPikachu"
  by (simp_all add: cachedAdapter_def cachedPikachu_def getPokemon25_def safeResponse_def)

lemma get25:
  "method' getPokemon25 = Some ''get''"
  "adapter getPokemon25 = None"
  "toLowerCase ''get'' = ''get''"
  by (simp_all add: getPokemon25_def toLowerCase_def)

text \<open>
  C4. A request whose method is POST (in any letter case), under options that set
  neither the cacheable nor the retryable methods and no custom retry condition: the
  cache interceptors hand the configuration and the response on and leave the store
  and its log of reads and writes as they were, whatever the strategy; so does a whole
  pass of the request through a service without request middlewares; and the retry
  condition is the network-failure test alone, so it is false for every error that
  carries a response, whatever its status.
\<close>

theorem post_method_gating:
  assumes "method' config = Some m" and "toLowerCase m = ''post''"
    and "methods options = None"
    and "methodsToRetry retryOptions = None" and "retryCondition retryOptions = None"
    and "err_config error = Some config"
    and "resp_config response = config"
  shows "cacheRequestInterceptor h options store config = (Inr config, store)
     \<and> cacheResponseInterceptor h options store response = (response, store)
     \<and> retryConditionOf retryOptions error = Inr (isNetworkError error)
     \<and> (case err_response error of
          None \<Rightarrow> True
        | Some r \<Rightarrow> retryConditionOf retryOptions error = Inr False)
     \<and> (if requestMiddlewares s = [] \<and> cacheConfig s = Some options \<and> adapter config = None
            \<and> (case transport config of Inl e \<Rightarrow> True | Inr r \<Rightarrow> resp_config r = config)
         then fst (snd (request h s transport store config)) = store
         else True)"
proof -
  have gate: "\<not> cacheableMethod options (method' config)"
    using assms(1-3) by (simp add: cacheableMethod_def array_includes_def)
  have rq: "cacheRequestInterceptor h options store config = (Inr config, store)"
    using gate by (simp add: cacheRequestInterceptor_def)
  have rs: "cacheResponseInterceptor h options store r = (r, store)"
    if "resp_config r = config" for r
    using gate that by (simp add: cacheResponseInterceptor_def)
  have rt: "retryConditionOf retryOptions error = Inr (isNetworkError error)"
    using assms(1,2,4,5,6)
    by (auto simp: retryConditionOf_def array_includes_def defaultMethodsToRetry_def
        isNetworkError_def Let_def split: option.splits)
  have st: "(case err_response error of
          None \<Rightarrow> True
        | Some r \<Rightarrow> retryConditionOf retryOptions error = Inr False)"
    using rt by (simp add: isNetworkError_def split: option.splits)
  have pipe: "fst (snd (request h s transport store config)) = store"
    if "requestMiddlewares s = []" "cacheConfig s = Some options" "adapter config = None"
      "case transport config of Inl e \<Rightarrow> True | Inr r \<Rightarrow> resp_config r = config"
  proof (cases "transport config")
    case (Inl e)
    then show ?thesis
      using that rq
      by (simp add: request_def requestStage_def sortedMiddlewares_def)
  next
    case (Inr r)
    then have "resp_config r = config"
      using that(4) by simp
    then show ?thesis
      using that(1-3) Inr rq rs [of r]
      by (simp add: request_def requestStage_def sortedMiddlewares_def
          split: completion.splits)
  qed
  show ?thesis
    using rq rs [OF assms(7)] rt st pipe by simp
qed

theorem post_method_gating_witness:
  "cacheRequestInterceptor exampleHeap (noCacheOptions\<lparr>strategy := Some CACHE_FIRST\<rparr>)
       populatedCache postOrder = (Inr postOrder, populatedCache)
   \<and> cacheResponseInterceptor exampleHeap (noCacheOptions\<lparr>strategy := Some CACHE_FIRST\<rparr>)
       populatedCache created201 = (created201, populatedCache)
   \<and> retryConditionOf noRetryOptions error500Post = Inr False"
proof -
  have 1: "method' postOrder = Some ''POST''"
    by (simp add: postOrder_def)
  have 2: "toLowerCase ''POST'' = ''post''"
    by (simp add: toLowerCase_def)
  have 3: "methods (noCacheOptions\<lparr>strategy := Some CACHE_FIRST\<rparr>) = None"
    by (simp add: noCacheOptions_def)
  have 4: "methodsToRetry noRetryOptions = None"
    by (simp add: noRetryOptions_def)
  have 5: "retryCondition noRetryOptions = None"
    by (simp add: noRetryOptions_def)
  have 6: "err_config error500Post = Some postOrder"
    by (simp add: error500Post_def)
  have 7: "resp_config created201 = postOrder"
    by (simp add: created201_def)
  have n: "isNetworkError error500Post = False"
    by (simp add: isNetworkError_def error500Post_def)
  show ?thesis
    using post_method_gating [OF 1 2 3 4 5 6 7, where h = exampleHeap and store = populatedCache] n
    by simp
qed

text \<open>
  C10. A numeric option set to zero counts as unset: \<open>retries: 0\<close> configures 3 retries,
  and a response that is cached under \<open>ttl: 0\<close> is written to the store with a time to
  live of 60000 milliseconds.
\<close>

theorem zero_is_unset:
  "map_option ar_retries (setupRetry (Opts (retryOptions\<lparr>retries := Some 0\<rparr>))) = Some 3
   \<and> (if cacheableMethod options (method' (resp_config response))
          \<and> (case shouldCache options of None \<Rightarrow> True | Some p \<Rightarrow> p response)
          \<and> ttl options = Some 0
       then ops (snd (cacheResponseInterceptor h options store response))
              = ops store @ [CacheSet (generateCacheKey h (resp_config response) options) 60000]
            \<and> (case setFailure store of
                  Some e \<Rightarrow> True
                | None \<Rightarrow>
                    entries (snd (cacheResponseInterceptor h options store response))
                      (generateCacheKey h (resp_config response) options)
                    = Some (safeResponse response, 60000))
       else True)"
  by (auto simp: setupRetry_def retriesOr3_def cacheResponseInterceptor_def ttlOr60000_def
      cache_set_def split: option.splits)

theorem zero_is_unset_witness:
  "map_option ar_retries (setupRetry (Opts (noRetryOptions\<lparr>retries := Some 0\<rparr>))) = Some 3
   \<and> snd (cacheResponseInterceptor exampleHeap (noCacheOptions\<lparr>ttl := Some 0\<rparr>) emptyCache
            (cachedAdapter cachedPikachu))
       = emptyCache\<lparr>entries := [keyPokemon25 \<mapsto> (cachedPikachu, 60000)],
                     ops := [CacheSet keyPokemon25 60000]\<rparr>"
proof -
  let ?options = "noCacheOptions\<lparr>ttl := Some 0\<rparr>"
  let ?after = "snd (cacheResponseInterceptor exampleHeap ?options emptyCache
                       (cachedAdapter cachedPikachu))"
  have c: "cacheableMethod ?options (method' (resp_config (cachedAdapter cachedPikachu)))"
    by (simp add: cacheableMethod_def noCacheOptions_def cachedAdapter_pikachu get25
        array_includes_def)
  have k: "generateCacheKey exampleHeap getPokemon25 ?options = keyPokemon25"
    by (rule key25) (simp add: noCacheOptions_def)
  have "ops ?after = [CacheSet keyPokemon25 60000]"
    using zero_is_unset [where options = ?options
        and response = "cachedAdapter cachedPikachu" and h = exampleHeap and store = emptyCache]
      c k
    by (simp add: cachedAdapter_pikachu noCacheOptions_def emptyCache_def)
  moreover have "?after
       = emptyCache\<lparr>entries := [keyPokemon25 \<mapsto> (cachedPikachu, 60000)], ops := ops ?after\<rparr>"
    using c k
    by (simp add: cacheResponseInterceptor_def cache_set_def cachedAdapter_pikachu
        emptyCache_def noCacheOptions_def ttlOr60000_def)
  moreover have
    "map_option ar_retries (setupRetry (Opts (noRetryOptions\<lparr>retries := Some 0\<rparr>))) = Some 3"
    by (simp add: setupRetry_def retriesOr3_def)
  ultimately show ?thesis by simp
qed

subsection \<open>Cache strategy, route rules and store errors\<close>

text \<open>
  The strategy and the route rules of the cache options have no effect on a request.
\<close>

lemma generateCacheKey_strategy_routes:
  "generateCacheKey h config (options\<lparr>strategy := st, routes := rt\<rparr>)
     = generateCacheKey h config options"
  by (simp add: generateCacheKey_def)

lemma strategy_and_routes_unused:
  "request h (s\<lparr>cacheConfig := Some (options\<lparr>strategy := st, routes := rt\<rparr>)\<rparr>)
     = request h (s\<lparr>cacheConfig := Some options\<rparr>)"
proof -
  have rq: "cacheRequestInterceptor h (options\<lparr>strategy := st, routes := rt\<rparr>)
              = cacheRequestInterceptor h options"
    by (intro ext)
      (simp add: cacheRequestInterceptor_def cacheableMethod_def
        generateCacheKey_strategy_routes)
  have rs: "cacheResponseInterceptor h (options\<lparr>strategy := st, routes := rt\<rparr>)
              = cacheResponseInterceptor h options"
    by (intro ext)
      (simp add: cacheResponseInterceptor_def cacheableMethod_def
        generateCacheKey_strategy_routes)
  have sel:
    "cacheConfig (s\<lparr>cacheConfig := c\<rparr>) = c"
    "requestMiddlewares (s\<lparr>cacheConfig := c\<rparr>) = requestMiddlewares s"
    "responseMiddlewares (s\<lparr>cacheConfig := c\<rparr>) = responseMiddlewares s"
    "errorMiddlewares (s\<lparr>cacheConfig := c\<rparr>) = errorMiddlewares s" for c
    by simp_all
  show ?thesis
    unfolding request_def requestStage_def responseStage_def errorStage_def sel
      option.case rq rs ..
qed

text \<open>
  C1, at a request the claim covers: the strategy is side-cache, the store holds an entry
  for the key of a GET of \<open>/pokemon/25\<close>, and the transport would answer. The caller gets
  the cached response, as the claim says; but the transport is not called, and the entry
  written back is the cached response again, not a new one. The strategy of the options
  is never read: a hit installs an adapter that resolves to the cached value.
\<close>

theorem side_cache_hit_skips_transport:
  "(case request exampleHeap sideCacheService liveTransport populatedCache getPokemon25 of
      (result, store, calls) \<Rightarrow>
        result = Returned (PResponse (cachedAdapter cachedPikachu))
        \<and> calls = 0
        \<and> ops store = [CacheGet keyPokemon25, CacheSet keyPokemon25 60000]
        \<and> entries store keyPokemon25 = Some (cachedPikachu, 60000))"
  by (simp add: request_def sideCacheService_def newHttpService_def setupCache_def
      requestStage_def responseStage_def sortedMiddlewares_def
      cacheRequestInterceptor_def cacheResponseInterceptor_def cacheableMethod_def
      array_includes_def cache_get_def cache_set_def key25 noCacheOptions_def
      populatedCache_def emptyCache_def cachedAdapter_pikachu get25 ttlOr60000_def)

text \<open>
  C2, at the scenario of the claim: the response to a GET of \<open>/pokemon/25\<close> is stored with
  the global time to live of 60000 and not with the 3600000 of the route rule. The
  route rules of the options are never read.
\<close>

theorem route_rule_ignored:
  "(case request exampleHeap routeRuleService liveTransport emptyCache getPokemon25 of
      (result, store, calls) \<Rightarrow>
        ops store = [CacheGet keyPokemon25, CacheSet keyPokemon25 60000]
        \<and> map_option snd (entries store keyPokemon25) = Some 60000
        \<and> map_option snd (entries store keyPokemon25) \<noteq> Some 3600000)"
  by (simp add: request_def routeRuleService_def newHttpService_def setupCache_def
      requestStage_def responseStage_def sortedMiddlewares_def
      cacheRequestInterceptor_def cacheResponseInterceptor_def cacheableMethod_def
      array_includes_def cache_get_def cache_set_def key25 noCacheOptions_def
      emptyCache_def get25 ttlOr60000_def liveTransport_def)

text \<open>
  C8, at a store whose reads fail: the read error is the error the caller gets, and the
  transport is never called. The write path does absorb an error of the store
  (\<open>cache_write_failure_absorbed\<close>).
\<close>

theorem cache_read_failure_rejects:
  "request exampleHeap plainCacheService liveTransport brokenCache getPokemon25
     = (Thrown (PError storeDown), brokenCache\<lparr>ops := [CacheGet keyPokemon25]\<rparr>, 0)"
  by (simp add: request_def plainCacheService_def newHttpService_def setupCache_def
      requestStage_def errorStage_def sortedMiddlewares_def
      cacheRequestInterceptor_def cacheableMethod_def
      array_includes_def cache_get_def key25 noCacheOptions_def
      brokenCache_def emptyCache_def get25)

lemma cache_write_failure_absorbed:
  "fst (cacheResponseInterceptor h options store response) = response"
  by (simp add: cacheResponseInterceptor_def split: prod.splits sum.splits)

subsection \<open>Middlewares\<close>


















subsection \<open>Cache keys\<close>

lemma omitted_rename [simp]: "omitted (renameVal f v) = omitted v"
  by (cases v) (simp_all add: renameVal_def)

lemma truthy_rename [simp]: "truthy (renameVal f v) = truthy v"
  by (cases v) (simp_all add: renameVal_def)

lemma commaSep_rename:
  "commaSep (map (map (renameItem f)) xs) = map (renameItem f) (commaSep xs)"
  by (induction xs rule: commaSep.induct) simp_all

lemma expand_rename: "expand (renameObj f obj) = map (renameItem f) (expand obj)"
proof (cases obj)
  case (JObject props)
  have eq: "map member (filter (\<lambda>p. \<not> omitted (snd p))
                 (map (\<lambda>p. (fst p, renameVal f (snd p))) props))
        = map (map (renameItem f)) (map member (filter (\<lambda>p. \<not> omitted (snd p)) props))"
    by (induction props) (simp_all add: member_def)
  have "expand (renameObj f obj)
          = Tok ''{'' # commaSep (map member (filter (\<lambda>p. \<not> omitted (snd p))
              (map (\<lambda>p. (fst p, renameVal f (snd p))) props))) @ [Tok ''}'']"
    using JObject by (simp add: expand_def renameObj_def)
  also have "\<dots> = Tok ''{'' # map (renameItem f)
              (commaSep (map member (filter (\<lambda>p. \<not> omitted (snd p)) props))) @ [Tok ''}'']"
    by (simp only: eq commaSep_rename)
  also have "\<dots> = map (renameItem f) (expand obj)"
    using JObject by (simp add: expand_def)
  finally show ?thesis .
next
  case (JArray elems)
  have eq: "map (\<lambda>v. [Val v]) (map (renameVal f) elems)
        = map (map (renameItem f)) (map (\<lambda>v. [Val v]) elems)"
    by simp
  have "expand (renameObj f obj)
          = Tok ''['' # commaSep (map (\<lambda>v. [Val v]) (map (renameVal f) elems)) @ [Tok '']'']"
    using JArray by (simp add: expand_def renameObj_def)
  also have "\<dots> = Tok ''['' # map (renameItem f)
              (commaSep (map (\<lambda>v. [Val v]) elems)) @ [Tok '']'']"
    by (simp only: eq commaSep_rename)
  also have "\<dots> = map (renameItem f) (expand obj)"
    using JArray by (simp add: expand_def)
  finally show ?thesis .
qed

text \<open>The walk over a renamed heap emits the same text: by induction on the walk.\<close>

lemma stringifyLoop_rename:
  "renamedHeap f h h' \<Longrightarrow>
   stringifyLoop h' (f ` seen) (map (renameItem f) st) out = stringifyLoop h seen st out"
proof (induction h seen st out rule: stringifyLoop.induct)
  case (1 h seen out)
  then show ?case by simp
next
  case (2 h seen s rest out)
  then show ?case by simp
next
  case (3 h seen v rest out)
  note heap = \<open>renamedHeap f h h'\<close>
  show ?case
  proof (cases v)
    case (JRef a)
    have mem: "(f a \<in> f ` seen) = (a \<in> seen)"
      using heap by (auto simp: renamedHeap_def inj_def)
    have len: "(f a < length h') = (a < length h)"
      using heap by (simp add: renamedHeap_def)
    show ?thesis
    proof (cases "a \<in> seen")
      case True
      then show ?thesis
        using JRef mem "3.IH"(7) heap by (simp add: renameVal_def)
    next
      case False
      show ?thesis
      proof (cases "a < length h")
        case True
        have obj: "h' ! f a = renameObj f (h ! a)"
          using heap True by (simp add: renamedHeap_def)
        have "stringifyLoop h' (f ` insert a seen)
                (map (renameItem f) (expand (h ! a) @ rest)) out
              = stringifyLoop h (insert a seen) (expand (h ! a) @ rest) out"
          using "3.IH"(8) JRef False True heap by simp
        then show ?thesis
          using JRef False True mem len obj by (simp add: renameVal_def expand_rename)
      next
        case beyond: False
        have "stringifyLoop h' (f ` insert a seen)
                (map (renameItem f) (Tok ''{}'' # rest)) out
              = stringifyLoop h (insert a seen) (Tok ''{}'' # rest) out"
          using "3.IH"(9) JRef False beyond heap by simp
        then show ?thesis
          using JRef False beyond mem len by (simp add: renameVal_def)
      qed
    qed
  qed (use "3.IH" heap in \<open>simp_all add: renameVal_def\<close>)
qed

lemma JSON_stringify_rename:
  assumes "renamedHeap f h h'"
  shows "JSON_stringify h' (renameVal f v) = JSON_stringify h v"
  using stringifyLoop_rename [OF assms, of "{}" "[Val v]" "[]"]
  by (simp add: JSON_stringify_def)

lemma renameConfig_fields:
  "params (renameConfig f config) = renameVal f (params config)"
  "data (renameConfig f config) = renameVal f (data config)"
  "method' (renameConfig f config) = method' config"
  "url (renameConfig f config) = url config"
  by (simp_all add: renameConfig_def)

lemma serializeParamsAndData_rename:
  assumes "renamedHeap f h h'"
  shows "serializeParamsAndData h' (renameConfig f config) = serializeParamsAndData h config"
  unfolding serializeParamsAndData_def renameConfig_fields JSON_stringify_rename [OF assms]
  by simp

lemma defaultCacheKey_rename:
  assumes "renamedHeap f h h'"
  shows "defaultCacheKey h' (renameConfig f config) = defaultCacheKey h config"
  unfolding defaultCacheKey_def renameConfig_fields serializeParamsAndData_rename [OF assms]
  by simp

lemmas stringify_defs = defaultCacheKey_def serializeParamsAndData_def JSON_stringify_def
  expand_def member_def quoteJSONString_def quoteChar_def circularMarker_def showInt_def
  template_def toLowerCase_def generateCacheKey_def noCacheOptions_def

text \<open>
  C5 (amended). Default key generation is a total function from the request and its
  object graph to a string (the walk of the serializer terminates on every heap, cyclic
  or not, and the one exception it can raise is caught). It gives the same key to two
  requests that are the same up to a renaming of the object identities, that is with
  the same structure and the same sharing. A reference to an object the walk has
  already visited, on a cycle or not, is written as the marker \<open>[Circular Reference]\<close>.
  When the serialization raises, the key ends with the markers \<open>params-present\<close> and
  \<open>data-present\<close> (each only when the value is truthy); otherwise with the two
  serialized texts.
\<close>

theorem cache_key_deterministic:
  assumes "renamedHeap f h h'" and "cacheKey options = None"
  shows "generateCacheKey h' (renameConfig f config) options = generateCacheKey h config options
     \<and> (if a \<in> seen
         then stringifyLoop h seen (Val (JRef a) # rest) out
                = stringifyLoop h seen rest (out @ quoteJSONString circularMarker)
         else True)
     \<and> generateCacheKey h config options
         = ''http-cache:''
           @ (case method' config of
                None \<Rightarrow> ''get''
              | Some x \<Rightarrow> if toLowerCase x = [] then ''get'' else toLowerCase x)
           @ '':'' @ (case url config of None \<Rightarrow> [] | Some x \<Rightarrow> x) @ '':''
           @ (case serializeParamsAndData h config of
                Inl e \<Rightarrow>
                  (if truthy (params config) then ''params-present'' else []) @ '':''
                    @ (if truthy (data config) then ''data-present'' else [])
              | Inr pd \<Rightarrow> template (fst pd) @ '':'' @ template (snd pd))"
proof -
  have same: "generateCacheKey h' (renameConfig f config) options = generateCacheKey h config options"
    using assms(2) defaultCacheKey_rename [OF assms(1), of config]
    by (simp add: generateCacheKey_def)
  have marker: "a \<in> seen \<Longrightarrow>
      stringifyLoop h seen (Val (JRef a) # rest) out
        = stringifyLoop h seen rest (out @ quoteJSONString circularMarker)"
    by simp
  have shape: "generateCacheKey h config options
         = ''http-cache:''
           @ (case method' config of
                None \<Rightarrow> ''get''
              | Some x \<Rightarrow> if toLowerCase x = [] then ''get'' else toLowerCase x)
           @ '':'' @ (case url config of None \<Rightarrow> [] | Some x \<Rightarrow> x) @ '':''
           @ (case serializeParamsAndData h config of
                Inl e \<Rightarrow>
                  (if truthy (params config) then ''params-present'' else []) @ '':''
                    @ (if truthy (data config) then ''data-present'' else [])
              | Inr pd \<Rightarrow> template (fst pd) @ '':'' @ template (snd pd))"
    using assms(2)
    by (simp add: generateCacheKey_def defaultCacheKey_def template_def split: sum.splits)
  show ?thesis
    using same marker shape by simp
qed

lemma renamed_circular: "renamedHeap swap01 circularHeap circularHeapSwapped"
proof -
  have "inj swap01"
    by (auto simp: inj_def swap01_def split: if_splits)
  moreover have "\<forall>a. (swap01 a < length circularHeap) = (a < length circularHeap)"
    by (auto simp: swap01_def circularHeap_def)
  moreover have "\<forall>a. a < length circularHeap \<longrightarrow>
      circularHeapSwapped ! swap01 a = renameObj swap01 (circularHeap ! a)"
    by (auto simp: circularHeap_def circularHeapSwapped_def swap01_def renameObj_def
        renameVal_def less_Suc_eq numeral_2_eq_2)
  ultimately show ?thesis
    by (simp add: renamedHeap_def circularHeap_def circularHeapSwapped_def)
qed

lemma circular_key:
  "generateCacheKey circularHeap circularParams noCacheOptions
     = ''http-cache:get:/pokemon/25:{'' @ quoteJSONString ''name'' @ '':''
         @ quoteJSONString ''pikachu'' @ '','' @ quoteJSONString ''self'' @ '':''
         @ quoteJSONString circularMarker @ '','' @ quoteJSONString ''friend'' @ '':{''
         @ quoteJSONString ''back'' @ '':'' @ quoteJSONString circularMarker @ ''}}:''"
  by (simp add: stringify_defs circularHeap_def circularParams_def getPokemon25_def)

lemma bigint_key:
  "generateCacheKey exampleHeap bigIntBody noCacheOptions
     = ''http-cache:post:/orders:params-present:data-present''"
  by (simp add: stringify_defs bigIntBody_def postOrder_def)

text \<open>
  A circular object graph and the same graph with its two objects at swapped addresses
  get one key, in which both references back are the marker; a body that holds a BigInt
  gets the coarse markers.
\<close>

theorem cache_key_deterministic_witness:
  "renamedHeap swap01 circularHeap circularHeapSwapped
   \<and> generateCacheKey circularHeapSwapped (renameConfig swap01 circularParams) noCacheOptions
       = ''http-cache:get:/pokemon/25:{'' @ quoteJSONString ''name'' @ '':''
         @ quoteJSONString ''pikachu'' @ '','' @ quoteJSONString ''self'' @ '':''
         @ quoteJSONString circularMarker @ '','' @ quoteJSONString ''friend'' @ '':{''
         @ quoteJSONString ''back'' @ '':'' @ quoteJSONString circularMarker @ ''}}:''
   \<and> generateCacheKey exampleHeap bigIntBody noCacheOptions
       = ''http-cache:post:/orders:params-present:data-present''"
proof -
  have none: "cacheKey noCacheOptions = None"
    by (simp add: noCacheOptions_def)
  have "generateCacheKey circularHeapSwapped (renameConfig swap01 circularParams) noCacheOptions
          = generateCacheKey circularHeap circularParams noCacheOptions"
    using cache_key_deterministic [OF renamed_circular none, of circularParams] by simp
  then show ?thesis
    using renamed_circular circular_key bigint_key by simp
qed

text \<open>
  The claim as stated promises one key for structurally equal requests: parameters
  \<open>{a: x, b: x}\<close> with one object \<open>x = {v: 1}\<close> and parameters \<open>{a: {v: 1}, b: {v: 1}}\<close>
  unfold to the same tree and get different keys, since the second reference to \<open>x\<close>
  is written as the marker.
\<close>

theorem cache_key_sharing_counterexample:
  "structurallyEqual 2 sharingHeap sharedParams copiedParams
   \<and> generateCacheKey sharingHeap sharedParams noCacheOptions
       \<noteq> generateCacheKey sharingHeap copiedParams noCacheOptions"
proof -
  have "structurallyEqual 2 sharingHeap sharedParams copiedParams"
    by (simp add: structurallyEqual_def sharingHeap_def sharedParams_def copiedParams_def
        getPokemon25_def numeral_2_eq_2)
  moreover have "generateCacheKey sharingHeap sharedParams noCacheOptions
       \<noteq> generateCacheKey sharingHeap copiedParams noCacheOptions"
    by (simp add: stringify_defs sharingHeap_def sharedParams_def copiedParams_def
        getPokemon25_def)
  ultimately show ?thesis by simp
qed

end
